theory Spec2Isabelle
  imports Main "HOL-Library.Mapping" "HOL-Library.AList_Mapping"
begin

section \<open>The genbids entity-merge writer\<close>

text \<open>
  A shallow embedding of \<^verbatim>\<open>src/src/genbids/bids_model.py\<close> and
  \<^verbatim>\<open>src/src/genbids/bids_writer.py\<close>. Every Python exception is a value of
  \<open>error\<close>; the filesystem is an explicit state that each operation takes and returns;
  the containers a \<open>BidsBuilder\<close> shares by reference live in an explicit store.
\<close>

subsection \<open>Paths (pathlib)\<close>

text \<open>
  A pure POSIX path as pathlib parses it: the anchor (\<open>''''\<close>, \<open>''/''\<close> or \<open>''//''\<close>) and
  the names after it. Parsing drops empty and \<open>''.''\<close> components and keeps \<open>''..''\<close>.
\<close>

datatype path = Path (anchor: string) (parts: "string list")

text \<open>\<^verbatim>\<open>str.split('/')\<close>.\<close>

fun split_sep :: "string \<Rightarrow> string list" where
  "split_sep [] = [[]]"
| "split_sep (c # cs) =
     (if c = CHR ''/'' then [] # split_sep cs
      else (case split_sep cs of [] \<Rightarrow> [[c]] | x # xs \<Rightarrow> (c # x) # xs))"

text \<open>The POSIX flavour's \<^verbatim>\<open>splitroot\<close>: exactly two leading slashes are kept as such.\<close>

definition splitroot :: "string \<Rightarrow> string \<times> string" where
  "splitroot part =
     (case part of
        [] \<Rightarrow> ('''', part)
      | c # _ \<Rightarrow>
          if c = CHR ''/'' then
            (let stripped_part = dropWhile (\<lambda>x. x = CHR ''/'') part
             in if length part - length stripped_part = 2 then (''//'', stripped_part)
                else (''/'', stripped_part))
          else ('''', part))"

text \<open>\<^verbatim>\<open>Path(s)\<close>.\<close>

definition PurePath :: "string \<Rightarrow> path" where
  "PurePath s =
     (case splitroot s of
        (root, rel) \<Rightarrow> Path root (filter (\<lambda>x. x \<noteq> [] \<and> x \<noteq> ''.'') (split_sep rel)))"

text \<open>\<^verbatim>\<open>p / q\<close> for two paths: an anchored right operand replaces the left one.\<close>

definition truediv :: "path \<Rightarrow> path \<Rightarrow> path" where
  "truediv p q = (if anchor q = [] then Path (anchor p) (parts p @ parts q) else q)"

text \<open>\<^verbatim>\<open>p / s\<close> for a string \<open>s\<close>.\<close>

definition truediv_str :: "path \<Rightarrow> string \<Rightarrow> path" where
  "truediv_str p s = truediv p (PurePath s)"

text \<open>\<^verbatim>\<open>p.parent\<close>: a path with no names is its own parent.\<close>

definition parent :: "path \<Rightarrow> path" where
  "parent p = Path (anchor p) (butlast (parts p))"

text \<open>\<^verbatim>\<open>p.name\<close>: the last name, or the empty string.\<close>

definition name :: "path \<Rightarrow> string" where
  "name p = (case rev (parts p) of [] \<Rightarrow> [] | n # _ \<Rightarrow> n)"

text \<open>
  \<^verbatim>\<open>p.suffix\<close>, as CPython defines it up to version 3.13: with \<open>i\<close> the index of
  the last dot of the name, the suffix is
  \<open>name[i:]\<close> when \<open>0 < i < len(name) - 1\<close> and empty otherwise. Below, \<open>k\<close> is the
  number of characters after the last dot, so \<open>i = len(name) - 1 - k\<close>.
\<close>

definition path_suffix :: "path \<Rightarrow> string" where
  "path_suffix p =
     (let n = name p; k = length (takeWhile (\<lambda>c. c \<noteq> CHR ''.'') (rev n))
      in if CHR ''.'' \<in> set n \<and> 0 < k \<and> Suc k < length n then drop (length n - Suc k) n
         else [])"

subsection \<open>Tables, file contents and errors\<close>

text \<open>
  A \<^verbatim>\<open>pandas.DataFrame\<close> reduced to what the writer uses: the column names and the
  rows, every cell as its text. A dictionary \<^verbatim>\<open>Dict[str, str]\<close> is a finite mapping;
  \<^verbatim>\<open>a.update(b)\<close> keeps the keys of both, with the values of \<open>b\<close> where both have one.
\<close>

datatype DataFrame = DataFrame (columns: "string list") (rows: "string list list")

type_synonym dict = "(string, string) mapping"

definition dict_update :: "dict \<Rightarrow> dict \<Rightarrow> dict" where
  "dict_update a b = Mapping.combine (\<lambda>old new. new) a b"

text \<open>
  What a file holds, by how it was produced: the text \<^verbatim>\<open>json.dump\<close> writes for an
  object, the text \<^verbatim>\<open>DataFrame.to_csv(sep=..., index=...)\<close> writes for a table (with
  its header line), or any other bytes.
\<close>

datatype content =
    JsonText dict
  | CsvText char bool DataFrame
  | Bytes string

datatype node = Dir | File content

type_synonym filesystem = "(path \<times> node) list"

datatype MergeStrategy =
    UNKNOWN_MERGE
  | NO_MERGE
  | OVERWRITE
  | KEEP
  | RENAME_ENTITIES
  | NEW_SESSION

text \<open>The \<^verbatim>\<open>ValueError\<close>s the code raises, one constructor per message.\<close>

datatype value_error =
    No_BIDS_model_to_write
  | No_BIDS_model_or_BIDS_Builder_to_write
  | BIDS_root_is_not_empty_merge_strategy_required
  | BIDS_root_is_not_empty_cannot_merge
  | File_already_exists path
  | Unknown_merge_strategy MergeStrategy
  | Unknown_entity_type
  | Resource_must_be_a_file_path_or_tabular_data
  | Has_an_empty_name path

datatype error =
    ValueError value_error
  | NotImplementedError MergeStrategy
  | FileExistsError path
  | FileNotFoundError path
  | NotADirectoryError path
  | IsADirectoryError path
  | SameFileError path
  | JSONDecodeError path
  | ParserError path

subsection \<open>The filesystem\<close>

text \<open>
  Files and directories are found by their pathlib path; the first entry for a path is
  the current one. A path with no names (the working directory or the root) is a
  directory. Symbolic links and \<open>''..''\<close> are not interpreted.
\<close>

definition lookup :: "filesystem \<Rightarrow> path \<Rightarrow> node option" where
  "lookup fs p = (if parts p = [] then Some Dir else map_of fs p)"

definition path_exists :: "filesystem \<Rightarrow> path \<Rightarrow> bool" where
  "path_exists fs p = (lookup fs p \<noteq> None)"

definition is_dir :: "filesystem \<Rightarrow> path \<Rightarrow> bool" where
  "is_dir fs p = (lookup fs p = Some Dir)"

text \<open>\<^verbatim>\<open>list(p.iterdir())\<close> for a directory \<open>p\<close>.\<close>

definition iterdir :: "filesystem \<Rightarrow> path \<Rightarrow> path list" where
  "iterdir fs p = remdups (filter (\<lambda>q. parts q \<noteq> [] \<and> parent q = p) (map fst fs))"

text \<open>\<^verbatim>\<open>os.mkdir(p)\<close>.\<close>

definition os_mkdir :: "filesystem \<Rightarrow> path \<Rightarrow> error + filesystem" where
  "os_mkdir fs p =
     (if path_exists fs p then Inl (FileExistsError p)
      else (case lookup fs (parent p) of
              None \<Rightarrow> Inl (FileNotFoundError p)
            | Some (File _) \<Rightarrow> Inl (NotADirectoryError p)
            | Some Dir \<Rightarrow> Inr ((p, Dir) # fs)))"

text \<open>
  \<^verbatim>\<open>p.mkdir(parents=True, exist_ok=True)\<close>, as pathlib writes it: try
  \<^verbatim>\<open>os.mkdir\<close>; when the parent is missing, make the parent first; any other
  failure is ignored exactly when \<open>p\<close> is a directory already.
\<close>

function mkdir :: "filesystem \<Rightarrow> path \<Rightarrow> error + filesystem" where
  "mkdir fs p =
     (case os_mkdir fs p of
        Inr fs' \<Rightarrow> Inr fs'
      | Inl (FileNotFoundError q) \<Rightarrow>
          if parent p = p then Inl (FileNotFoundError q)
          else (case mkdir fs (parent p) of
                  Inl e \<Rightarrow> Inl e
                | Inr fs' \<Rightarrow>
                    (case os_mkdir fs' p of
                       Inr fs'' \<Rightarrow> Inr fs''
                     | Inl e \<Rightarrow> if is_dir fs' p then Inr fs' else Inl e))
      | Inl e \<Rightarrow> if is_dir fs p then Inr fs else Inl e)"
  by pat_completeness auto
termination
proof (relation "measure (\<lambda>(fs, p). length (parts p))")
  show "wf (measure (\<lambda>(fs, p). length (parts p)))" by simp
next
  fix fs p a x1
  assume "parent p \<noteq> p"
  then have "parts p \<noteq> []"
    by (cases p) (auto simp: parent_def)
  then show "((fs, parent p), (fs, p)) \<in> measure (\<lambda>(fs, p). length (parts p))"
    by (simp add: parent_def)
qed

declare mkdir.simps [simp del]

text \<open>\<^verbatim>\<open>open(p, "w")\<close> followed by writing \<open>c\<close>.\<close>

definition write_file :: "path \<Rightarrow> content \<Rightarrow> filesystem \<Rightarrow> error + filesystem" where
  "write_file p c fs =
     (case lookup fs p of
        Some Dir \<Rightarrow> Inl (IsADirectoryError p)
      | _ \<Rightarrow>
          (case lookup fs (parent p) of
             None \<Rightarrow> Inl (FileNotFoundError p)
           | Some (File _) \<Rightarrow> Inl (NotADirectoryError p)
           | Some Dir \<Rightarrow> Inr ((p, File c) # fs)))"

text \<open>\<^verbatim>\<open>open(p, "r")\<close> followed by reading everything.\<close>

definition read_file :: "path \<Rightarrow> filesystem \<Rightarrow> error + content" where
  "read_file p fs =
     (case lookup fs p of
        None \<Rightarrow> Inl (FileNotFoundError p)
      | Some Dir \<Rightarrow> Inl (IsADirectoryError p)
      | Some (File c) \<Rightarrow> Inr c)"

text \<open>\<^verbatim>\<open>json.load\<close> of a file: only the text of a JSON object decodes.\<close>

definition json_load :: "path \<Rightarrow> filesystem \<Rightarrow> error + dict" where
  "json_load p fs =
     (case read_file p fs of
        Inl e \<Rightarrow> Inl e
      | Inr (JsonText d) \<Rightarrow> Inr d
      | Inr _ \<Rightarrow> Inl (JSONDecodeError p))"

text \<open>\<^verbatim>\<open>json.dump(data, f, indent=2)\<close> into the file opened for writing at \<open>p\<close>.\<close>

definition json_dump :: "dict \<Rightarrow> path \<Rightarrow> filesystem \<Rightarrow> error + filesystem" where
  "json_dump data p fs = write_file p (JsonText data) fs"

text \<open>
  \<^verbatim>\<open>pd.read_csv(p, sep=sep)\<close>: a table written with the same separator and without an
  index column reads back as itself (the inference of cell types is not modelled).
\<close>

definition read_csv :: "path \<Rightarrow> char \<Rightarrow> filesystem \<Rightarrow> error + DataFrame" where
  "read_csv p sep fs =
     (case read_file p fs of
        Inl e \<Rightarrow> Inl e
      | Inr (CsvText s i t) \<Rightarrow> if s = sep \<and> i = False then Inr t else Inl (ParserError p)
      | Inr _ \<Rightarrow> Inl (ParserError p))"

text \<open>\<^verbatim>\<open>data.to_csv(p, sep=sep, index=index)\<close>.\<close>

definition to_csv :: "DataFrame \<Rightarrow> path \<Rightarrow> char \<Rightarrow> bool \<Rightarrow> filesystem \<Rightarrow> error + filesystem" where
  "to_csv data p sep index fs = write_file p (CsvText sep index data) fs"

text \<open>
  \<^verbatim>\<open>pd.concat([a, b])\<close>: the columns of \<open>a\<close>, then those of \<open>b\<close> that \<open>a\<close> lacks; the
  rows of \<open>a\<close>, then the rows of \<open>b\<close>; a cell of a column the row's table lacks is empty.
\<close>

definition cell :: "string list \<Rightarrow> string list \<Rightarrow> string \<Rightarrow> string" where
  "cell cols row c = (case map_of (zip cols row) c of None \<Rightarrow> [] | Some v \<Rightarrow> v)"

definition concat_frames :: "DataFrame \<Rightarrow> DataFrame \<Rightarrow> DataFrame" where
  "concat_frames a b =
     (let cols = columns a @ filter (\<lambda>c. c \<notin> set (columns a)) (columns b)
      in DataFrame cols
           (map (\<lambda>r. map (cell (columns a) r) cols) (rows a) @
            map (\<lambda>r. map (cell (columns b) r) cols) (rows b)))"

text \<open>
  \<^verbatim>\<open>shutil.copy2(src, dst)\<close>: a directory as destination receives the file under the
  source's name; copying a file onto itself is refused; the source is opened before the
  destination.
\<close>

definition copy2 :: "path \<Rightarrow> path \<Rightarrow> filesystem \<Rightarrow> error + filesystem" where
  "copy2 src dst fs =
     (let dst' = (if is_dir fs dst \<and> name src \<noteq> []
                  then Path (anchor dst) (parts dst @ [name src]) else dst)
      in if src = dst' then Inl (SameFileError src)
         else (case read_file src fs of
                 Inl e \<Rightarrow> Inl e
               | Inr c \<Rightarrow> write_file dst' c fs))"

subsection \<open>bids\_model.py: entities and the path configuration\<close>

record BidsEntity =
  subject_id :: string
  datatype' :: string
  task_name :: string
  suffix :: string
  session_id :: "string option"
  metadata :: "dict option"
  file_path :: "path option"
  tabular_data :: "DataFrame option"
  run_id :: "string option"

text \<open>
  The constructor the \<^verbatim>\<open>@dataclass(frozen=True)\<close> decorator generates: it stores its
  arguments and checks nothing (the class has no \<^verbatim>\<open>__post_init__\<close>).
\<close>

definition BidsEntity_init ::
  "string \<Rightarrow> string \<Rightarrow> string \<Rightarrow> string \<Rightarrow> string option \<Rightarrow> dict option \<Rightarrow> path option \<Rightarrow>
   DataFrame option \<Rightarrow> string option \<Rightarrow> error + BidsEntity" where
  "BidsEntity_init subject_id' datatype'' task_name' suffix' session_id' metadata' file_path'
     tabular_data' run_id' =
     Inr \<lparr>subject_id = subject_id', datatype' = datatype'', task_name = task_name',
          suffix = suffix', session_id = session_id', metadata = metadata',
          file_path = file_path', tabular_data = tabular_data', run_id = run_id'\<rparr>"

definition is_file_resource :: "BidsEntity \<Rightarrow> bool" where
  "is_file_resource self = (file_path self \<noteq> None)"

definition is_tabular_data :: "BidsEntity \<Rightarrow> bool" where
  "is_tabular_data self = (tabular_data self \<noteq> None)"

text \<open>An f-string field holding an \<^verbatim>\<open>Optional[str]\<close>: \<^verbatim>\<open>None\<close> prints as \<open>''None''\<close>.\<close>

definition format_optional :: "string option \<Rightarrow> string" where
  "format_optional v = (case v of None \<Rightarrow> ''None'' | Some s \<Rightarrow> s)"

text \<open>\<^verbatim>\<open>sep.join(xs)\<close>.\<close>

fun join :: "string \<Rightarrow> string list \<Rightarrow> string" where
  "join sep [] = []"
| "join sep [x] = x"
| "join sep (x # y # ys) = x @ sep @ join sep (y # ys)"

record BidsConfig =
  subject_formatter :: "BidsEntity \<Rightarrow> string"
  task_name_formatter :: "BidsEntity \<Rightarrow> string"
  session_formatter :: "BidsEntity \<Rightarrow> string"
  entity_formatter :: "BidsEntity \<Rightarrow> string"
  merge_participants_tsv :: bool
  merge_dataset_description :: bool
  include_sessions :: bool
  default_session_name :: "string option"

definition relative_entity_dir :: "BidsConfig \<Rightarrow> BidsEntity \<Rightarrow> path" where
  "relative_entity_dir self entity =
     (let rel_path = PurePath (subject_formatter self entity);
          rel_path = (if include_sessions self
                      then truediv_str rel_path (session_formatter self entity)
                      else rel_path)
      in truediv_str rel_path (datatype' entity))"

definition relative_entity_path :: "BidsConfig \<Rightarrow> BidsEntity \<Rightarrow> path" where
  "relative_entity_path self entity =
     truediv_str (relative_entity_dir self entity) (entity_formatter self entity)"

text \<open>
  \<^verbatim>\<open>p.with_suffix(s)\<close> for a valid suffix \<open>s\<close> (here always \<open>''.json''\<close>): a path with
  no name is refused; otherwise the name's suffix, if any, is replaced by \<open>s\<close>.
\<close>

definition with_suffix :: "path \<Rightarrow> string \<Rightarrow> error + path" where
  "with_suffix p s =
     (if name p = [] then Inl (ValueError (Has_an_empty_name p))
      else Inr (Path (anchor p)
             (butlast (parts p) @
              [take (length (name p) - length (path_suffix p)) (name p) @ s])))"

definition relative_entity_metadata_path :: "BidsConfig \<Rightarrow> BidsEntity \<Rightarrow> error + path" where
  "relative_entity_metadata_path self entity =
     with_suffix (relative_entity_path self entity) ''.json''"

definition default_subject_formatter :: "BidsEntity \<Rightarrow> string" where
  "default_subject_formatter entity = ''sub-'' @ subject_id entity"

definition default_task_name_formatter :: "BidsEntity \<Rightarrow> string" where
  "default_task_name_formatter entity = ''task-'' @ task_name entity"

definition default_session_formatter :: "BidsEntity \<Rightarrow> string" where
  "default_session_formatter entity = ''ses-'' @ format_optional (session_id entity)"

definition default_entity_formatter :: "BidsEntity \<Rightarrow> string" where
  "default_entity_formatter entity =
     (let name_parts = [''sub-'' @ subject_id entity];
          name_parts = name_parts @ [''task-'' @ task_name entity];
          name_parts = (case run_id entity of
                          None \<Rightarrow> name_parts
                        | Some r \<Rightarrow> name_parts @ [''run-'' @ r]);
          name_parts = name_parts @ [suffix entity]
      in join ''_'' name_parts)"

definition BidsConfig_default :: BidsConfig where
  "BidsConfig_default =
     \<lparr>subject_formatter = default_subject_formatter,
      task_name_formatter = default_task_name_formatter,
      session_formatter = default_session_formatter,
      entity_formatter = default_entity_formatter,
      merge_participants_tsv = True,
      merge_dataset_description = True,
      include_sessions = False,
      default_session_name = None\<rparr>"

record BidsModel =
  entities :: "BidsEntity list"
  dataset_description :: dict

text \<open>
  \<^verbatim>\<open>list(set([...]))\<close>: each subject id once. Python leaves the order open; one fixed
  order stands for it here.
\<close>

definition subject_ids :: "BidsModel \<Rightarrow> string list" where
  "subject_ids self = remdups (map subject_id (entities self))"

subsection \<open>bids\_model.py: the builder\<close>

text \<open>
  A builder holds references to a list of entities and to a dictionary; the objects
  themselves live in the store. The default values of \<^verbatim>\<open>__init__\<close>'s parameters
  (\<^verbatim>\<open>entities=[]\<close>, \<^verbatim>\<open>dataset_description={}\<close>) are two objects made once, when the
  function is defined: they are the objects at address 0.
\<close>

record store =
  entity_lists :: "nat \<Rightarrow> BidsEntity list"
  dicts :: "nat \<Rightarrow> dict"

record BidsBuilder =
  builder_entities :: nat
  builder_dataset_description :: nat

text \<open>The store right after the module is imported: every container is empty.\<close>

definition initial_store :: store where
  "initial_store = \<lparr>entity_lists = (\<lambda>a. []), dicts = (\<lambda>a. Mapping.empty)\<rparr>"

definition default_entities :: nat where
  "default_entities = 0"

definition default_dataset_description :: nat where
  "default_dataset_description = 0"

text \<open>\<^verbatim>\<open>BidsBuilder(entities, dataset_description)\<close>; \<open>None\<close> is an argument left out.\<close>

definition BidsBuilder_init :: "nat option \<Rightarrow> nat option \<Rightarrow> BidsBuilder" where
  "BidsBuilder_init entities' dataset_description' =
     \<lparr>builder_entities = (case entities' of None \<Rightarrow> default_entities | Some a \<Rightarrow> a),
      builder_dataset_description =
        (case dataset_description' of None \<Rightarrow> default_dataset_description | Some a \<Rightarrow> a)\<rparr>"

text \<open>
  \<^verbatim>\<open>build()\<close> hands the builder's containers to the model; the record is what they hold
  when the model is read.
\<close>

definition build :: "store \<Rightarrow> BidsBuilder \<Rightarrow> BidsModel" where
  "build st self =
     \<lparr>entities = entity_lists st (builder_entities self),
      dataset_description = dicts st (builder_dataset_description self)\<rparr>"

text \<open>What \<^verbatim>\<open>add\<close> may be given as \<open>resource\<close>: a path, a table, or anything else.\<close>

datatype resource = PathResource path | DataFrameResource DataFrame | OtherResource

text \<open>\<^verbatim>\<open>self._entities.append(x)\<close>.\<close>

definition append_entity :: "store \<Rightarrow> nat \<Rightarrow> BidsEntity \<Rightarrow> store" where
  "append_entity st a x = st\<lparr>entity_lists := (entity_lists st)(a := entity_lists st a @ [x])\<rparr>"

definition add ::
  "store \<Rightarrow> BidsBuilder \<Rightarrow> string \<Rightarrow> string \<Rightarrow> string \<Rightarrow> string \<Rightarrow> resource \<Rightarrow> string option \<Rightarrow>
   string option \<Rightarrow> dict option \<Rightarrow> error + store" where
  "add st self subject_id' datatype'' task_name' suffix' resource' run_id' session_id' metadata' =
     (case resource' of
        PathResource fp \<Rightarrow>
          (case BidsEntity_init subject_id' datatype'' task_name' suffix' session_id' metadata'
                  (Some fp) None run_id' of
             Inl e \<Rightarrow> Inl e
           | Inr x \<Rightarrow> Inr (append_entity st (builder_entities self) x))
      | DataFrameResource tb \<Rightarrow>
          (case BidsEntity_init subject_id' datatype'' task_name' suffix' session_id' metadata'
                  None (Some tb) run_id' of
             Inl e \<Rightarrow> Inl e
           | Inr x \<Rightarrow> Inr (append_entity st (builder_entities self) x))
      | OtherResource \<Rightarrow> Inl (ValueError Resource_must_be_a_file_path_or_tabular_data))"

subsection \<open>bids\_writer.py\<close>

record BidsWriter =
  bids_root :: path
  entity_merge_strategy :: MergeStrategy
  bids :: "BidsModel option"
  builder :: "BidsBuilder option"
  config :: BidsConfig

definition merge_json :: "path \<Rightarrow> dict \<Rightarrow> filesystem \<Rightarrow> error + filesystem" where
  "merge_json p data fs =
     (if path_exists fs p then
        (case json_load p fs of
           Inl e \<Rightarrow> Inl e
         | Inr existing_data \<Rightarrow> json_dump (dict_update existing_data data) p fs)
      else json_dump data p fs)"

definition merge_tsv :: "path \<Rightarrow> DataFrame \<Rightarrow> filesystem \<Rightarrow> error + filesystem" where
  "merge_tsv p data fs =
     (if path_exists fs p then
        (case read_csv p (CHR 0x09) fs of
           Inl e \<Rightarrow> Inl e
         | Inr existing_data \<Rightarrow> to_csv (concat_frames existing_data data) p (CHR 0x09) False fs)
      else to_csv data p (CHR 0x09) False fs)"

definition ensure_directory_path :: "path \<Rightarrow> bool \<Rightarrow> filesystem \<Rightarrow> error + filesystem" where
  "ensure_directory_path p is_dir' fs =
     (if is_dir' then (if \<not> path_exists fs p then mkdir fs p else Inr fs)
      else (if \<not> path_exists fs (parent p) then mkdir fs (parent p) else Inr fs))"

text \<open>The truth value of \<^verbatim>\<open>entity.metadata\<close>: \<^verbatim>\<open>None\<close> and the empty dictionary are false.\<close>

definition truthy :: "dict option \<Rightarrow> bool" where
  "truthy m = (case m of None \<Rightarrow> False | Some d \<Rightarrow> \<not> Mapping.is_empty d)"

text \<open>
  The result of an operation that may have written before it failed: the exception, if
  any, and the filesystem as it was left.
\<close>

type_synonym 'a outcome = "(error + 'a) \<times> filesystem"

definition merge_entity ::
  "BidsWriter \<Rightarrow> BidsEntity \<Rightarrow> (path \<Rightarrow> filesystem \<Rightarrow> error + filesystem) \<Rightarrow> filesystem \<Rightarrow>
   unit outcome" where
  "merge_entity self entity write_op fs =
     (let expected_filepath = truediv (bids_root self) (relative_entity_path (config self) entity)
      in if entity_merge_strategy self = NO_MERGE \<and> path_exists fs expected_filepath
         then (Inl (ValueError (File_already_exists expected_filepath)), fs)
         else if entity_merge_strategy self = OVERWRITE then
           (case ensure_directory_path expected_filepath False fs of
              Inl e \<Rightarrow> (Inl e, fs)
            | Inr fs1 \<Rightarrow>
                (case write_op expected_filepath fs1 of
                   Inl e \<Rightarrow> (Inl e, fs1)
                 | Inr fs2 \<Rightarrow>
                     if truthy (metadata entity) then
                       (case relative_entity_metadata_path (config self) entity of
                          Inl e \<Rightarrow> (Inl e, fs2)
                        | Inr mp \<Rightarrow>
                            (case merge_json (truediv (bids_root self) mp)
                                    (the (metadata entity)) fs2 of
                               Inl e \<Rightarrow> (Inl e, fs2)
                             | Inr fs3 \<Rightarrow> (Inr (), fs3)))
                     else (Inr (), fs2)))
         else if entity_merge_strategy self = KEEP then (Inr (), fs)
         else if entity_merge_strategy self = RENAME_ENTITIES
         then (Inl (NotImplementedError RENAME_ENTITIES), fs)
         else if entity_merge_strategy self = NEW_SESSION
         then (Inl (NotImplementedError NEW_SESSION), fs)
         else (Inl (ValueError (Unknown_merge_strategy (entity_merge_strategy self))), fs))"

text \<open>The blocks of \<^verbatim>\<open>write\<close>, in the order of its comments. First: confirm root.\<close>

definition confirm_root :: "BidsWriter \<Rightarrow> filesystem \<Rightarrow> unit outcome" where
  "confirm_root self fs =
     (case mkdir fs (bids_root self) of
        Inl e \<Rightarrow> (Inl e, fs)
      | Inr fs1 \<Rightarrow>
          if length (iterdir fs1 (bids_root self)) > 0 then
            (if entity_merge_strategy self = UNKNOWN_MERGE
             then (Inl (ValueError BIDS_root_is_not_empty_merge_strategy_required), fs1)
             else if entity_merge_strategy self = NO_MERGE
             then (Inl (ValueError BIDS_root_is_not_empty_cannot_merge), fs1)
             else (Inr (), fs1))
          else (Inr (), fs1))"

text \<open>Write dataset\_description.json.\<close>

definition write_dataset_description :: "BidsWriter \<Rightarrow> BidsModel \<Rightarrow> filesystem \<Rightarrow> unit outcome" where
  "write_dataset_description self m fs =
     (let data_description_path = truediv_str (bids_root self) ''dataset_description.json''
      in if \<not> path_exists fs data_description_path \<or> merge_dataset_description (config self)
         then (case merge_json data_description_path (dataset_description m) fs of
                 Inl e \<Rightarrow> (Inl e, fs)
               | Inr fs1 \<Rightarrow> (Inr (), fs1))
         else (Inr (), fs))"

text \<open>Write participants.tsv.\<close>

definition write_participants :: "BidsWriter \<Rightarrow> BidsModel \<Rightarrow> filesystem \<Rightarrow> unit outcome" where
  "write_participants self m fs =
     (let participants_path = truediv_str (bids_root self) ''participants.tsv''
      in if \<not> path_exists fs participants_path \<or> merge_participants_tsv (config self)
         then (case merge_tsv participants_path
                      (DataFrame [''participant''] (map (\<lambda>s. [s]) (subject_ids m))) fs of
                 Inl e \<Rightarrow> (Inl e, fs)
               | Inr fs1 \<Rightarrow> (Inr (), fs1))
         else (Inr (), fs))"

text \<open>Write subject folders: the body of the loop, then the loop.\<close>

definition write_entity :: "BidsWriter \<Rightarrow> BidsEntity \<Rightarrow> filesystem \<Rightarrow> unit outcome" where
  "write_entity self entity fs =
     (case file_path entity of
        Some fp \<Rightarrow> merge_entity self entity (\<lambda>p. copy2 fp p) fs
      | None \<Rightarrow>
          (case tabular_data entity of
             Some tb \<Rightarrow> merge_entity self entity (\<lambda>p. to_csv tb p (CHR 0x09) False) fs
           | None \<Rightarrow> (Inl (ValueError Unknown_entity_type), fs)))"

fun write_entities :: "BidsWriter \<Rightarrow> BidsEntity list \<Rightarrow> filesystem \<Rightarrow> unit outcome" where
  "write_entities self [] fs = (Inr (), fs)"
| "write_entities self (entity # rest) fs =
     (case write_entity self entity fs of
        (Inl e, fs1) \<Rightarrow> (Inl e, fs1)
      | (Inr u, fs1) \<Rightarrow> write_entities self rest fs1)"

text \<open>
  \<^verbatim>\<open>write()\<close>. The model built from the builder shares the builder's containers, so it
  is read from the store; the writer keeps it in \<^verbatim>\<open>_bids\<close>, which no later step of
  one call reads differently.
\<close>

definition write' :: "store \<Rightarrow> BidsWriter \<Rightarrow> filesystem \<Rightarrow> bool outcome" where
  "write' st self fs =
     (if bids self = None \<and> builder self = None
      then (Inl (ValueError No_BIDS_model_to_write), fs)
      else
        (case (case bids self of
                 None \<Rightarrow> (case builder self of None \<Rightarrow> None | Some b \<Rightarrow> Some (build st b))
               | Some m \<Rightarrow> Some m) of
           None \<Rightarrow> (Inl (ValueError No_BIDS_model_or_BIDS_Builder_to_write), fs)
         | Some m \<Rightarrow>
             (case confirm_root self fs of
                (Inl e, fs1) \<Rightarrow> (Inl e, fs1)
              | (Inr u, fs1) \<Rightarrow>
                  (case write_dataset_description self m fs1 of
                     (Inl e, fs2) \<Rightarrow> (Inl e, fs2)
                   | (Inr u, fs2) \<Rightarrow>
                       (case write_participants self m fs2 of
                          (Inl e, fs3) \<Rightarrow> (Inl e, fs3)
                        | (Inr u, fs3) \<Rightarrow>
                            (case write_entities self (entities m) fs3 of
                               (Inl e, fs4) \<Rightarrow> (Inl e, fs4)
                             | (Inr u, fs4) \<Rightarrow> (Inr True, fs4)))))))"

text \<open>\<^verbatim>\<open>__exit__(exc_type, exc_value, traceback)\<close>: the three arguments are not read.\<close>

definition exit' ::
  "store \<Rightarrow> BidsWriter \<Rightarrow> 'a option \<Rightarrow> 'b option \<Rightarrow> 'c option \<Rightarrow> filesystem \<Rightarrow> bool outcome" where
  "exit' st self exc_type exc_value traceback fs = write' st self fs"

text \<open>
  The \<^verbatim>\<open>with\<close> statement at the end of its block, where \<open>raised\<close> is the exception
  the block ended with, if any: \<^verbatim>\<open>__exit__\<close> is called with it; an exception of
  \<^verbatim>\<open>__exit__\<close> itself propagates; a true result suppresses the block's exception.
\<close>

definition with_exit :: "store \<Rightarrow> BidsWriter \<Rightarrow> error option \<Rightarrow> filesystem \<Rightarrow> unit outcome" where
  "with_exit st self raised fs =
     (case raised of
        None \<Rightarrow>
          (case exit' st self (None :: error option) (None :: error option)
                  (None :: unit option) fs of
             (Inl e, fs1) \<Rightarrow> (Inl e, fs1)
           | (Inr b, fs1) \<Rightarrow> (Inr (), fs1))
      | Some exc \<Rightarrow>
          (case exit' st self (Some exc) (Some exc) (Some ()) fs of
             (Inl e, fs1) \<Rightarrow> (Inl e, fs1)
           | (Inr b, fs1) \<Rightarrow> if b then (Inr (), fs1) else (Inl exc, fs1)))"

subsection \<open>Reading the filesystem, and the inputs of the scenarios\<close>

text \<open>The JSON object a file holds; a missing file, or one that is not such text, holds none.\<close>

definition json_object_at :: "filesystem \<Rightarrow> path \<Rightarrow> dict" where
  "json_object_at fs p = (case lookup fs p of Some (File (JsonText d)) \<Rightarrow> d | _ \<Rightarrow> Mapping.empty)"

text \<open>An entity's metadata as a dictionary: \<^verbatim>\<open>None\<close> adds no key.\<close>

definition metadata_dict :: "BidsEntity \<Rightarrow> dict" where
  "metadata_dict entity = (case metadata entity of None \<Rightarrow> Mapping.empty | Some d \<Rightarrow> d)"

text \<open>
  The tabular entity of the end-to-end scenario (subject S01, datatype beh, task draw,
  suffix .tsv) for a table and a metadata argument, a two-row table, and the writer of
  that one entity below the directory \<open>root\<close> with the default configuration.
\<close>

definition drawing_entity :: "DataFrame \<Rightarrow> dict option \<Rightarrow> BidsEntity" where
  "drawing_entity tb md =
     \<lparr>subject_id = ''S01'', datatype' = ''beh'', task_name = ''draw'', suffix = ''.tsv'',
      session_id = None, metadata = md, file_path = None, tabular_data = Some tb,
      run_id = None\<rparr>"

definition drawing_table :: DataFrame where
  "drawing_table = DataFrame [''x'', ''y''] [[''1'', ''2''], [''3'', ''4'']]"

definition drawing_writer :: "MergeStrategy \<Rightarrow> BidsEntity list \<Rightarrow> dict \<Rightarrow> BidsWriter" where
  "drawing_writer strategy es dd =
     \<lparr>bids_root = PurePath ''root'', entity_merge_strategy = strategy,
      bids = Some \<lparr>entities = es, dataset_description = dd\<rparr>, builder = None,
      config = BidsConfig_default\<rparr>"

text \<open>An entity constructed with neither a file reference nor tabular data.\<close>

definition bare_entity :: BidsEntity where
  "bare_entity =
     \<lparr>subject_id = ''S01'', datatype' = ''beh'', task_name = ''draw'', suffix = ''.tsv'',
      session_id = None, metadata = None, file_path = None, tabular_data = None,
      run_id = None\<rparr>"

text \<open>
  A path and its ancestors, from the path itself up to the anchor alone. The first
  function works on the names in reverse order.
\<close>

primrec lineage_rev :: "string \<Rightarrow> string list \<Rightarrow> path list" where
  "lineage_rev a [] = [Path a []]"
| "lineage_rev a (x # xs) = Path a (rev (x # xs)) # lineage_rev a xs"

definition lineage :: "path \<Rightarrow> path list" where
  "lineage p = lineage_rev (anchor p) (rev (parts p))"







text \<open>
  For the sidecar: two metadata dictionaries, the sidecar path of the scenario's entity,
  and a filesystem in which the entity's directory exists and the sidecar already holds
  an object with the key \<open>old\<close>.
\<close>

definition metadata_a :: dict where
  "metadata_a = Mapping.update ''a'' ''1'' Mapping.empty"

definition metadata_b :: dict where
  "metadata_b = Mapping.update ''b'' ''2'' Mapping.empty"

definition drawing_sidecar :: path where
  "drawing_sidecar = Path [] [''root'', ''sub-S01'', ''beh'', ''sub-S01_task-draw_.json'']"

definition stale_sidecar :: filesystem where
  "stale_sidecar =
     [(drawing_sidecar, File (JsonText (Mapping.update ''old'' ''0'' Mapping.empty))),
      (Path [] [''root'', ''sub-S01'', ''beh''], Dir),
      (Path [] [''root'', ''sub-S01''], Dir),
      (Path [] [''root''], Dir)]"

section \<open>Properties\<close>

subsection \<open>Helper facts\<close>

lemma lookup_dict_update:
  "Mapping.lookup (dict_update a b) k =
     (case Mapping.lookup b k of None \<Rightarrow> Mapping.lookup a k | Some v \<Rightarrow> Some v)"
  by (simp add: dict_update_def lookup_combine combine_options_def split: option.splits)

lemma lookup_is_empty: "Mapping.is_empty d \<Longrightarrow> Mapping.lookup d k = None"
  by (metis Mapping.is_empty_def domIff empty_iff keys_dom_lookup)

lemma parent_fixed: "(parent p = p) = (parts p = [])"
proof (cases p)
  case (Path a ps)
  have "butlast ps = ps \<Longrightarrow> ps = []"
  proof -
    assume "butlast ps = ps"
    then have "length ps - 1 = length ps" by (metis length_butlast)
    then show "ps = []" by (cases ps) auto
  qed
  then show ?thesis using Path by (auto simp: parent_def)
qed

lemma mkdir_unfold:
  "mkdir fs p =
     (if is_dir fs p then Inr fs
      else if path_exists fs p then Inl (FileExistsError p)
      else (case lookup fs (parent p) of
              Some Dir \<Rightarrow> Inr ((p, Dir) # fs)
            | Some (File c) \<Rightarrow> Inl (NotADirectoryError p)
            | None \<Rightarrow>
                (case mkdir fs (parent p) of
                   Inl e \<Rightarrow> Inl e
                 | Inr fs' \<Rightarrow>
                     (case os_mkdir fs' p of
                        Inr fs'' \<Rightarrow> Inr fs''
                      | Inl e \<Rightarrow> if is_dir fs' p then Inr fs' else Inl e))))"
  apply (subst mkdir.simps)
  apply (auto simp: os_mkdir_def is_dir_def path_exists_def parent_fixed lookup_def split: option.splits node.splits)
  done

lemma mkdir_dir: "is_dir fs p \<Longrightarrow> mkdir fs p = Inr fs"
  by (subst mkdir_unfold) simp

lemma mkdir_parent_dir:
  "lookup fs p = None \<Longrightarrow> lookup fs (parent p) = Some Dir \<Longrightarrow> mkdir fs p = Inr ((p, Dir) # fs)"
  by (subst mkdir_unfold) (simp add: is_dir_def path_exists_def)

lemma mkdir_parent_file:
  "lookup fs p = None \<Longrightarrow> lookup fs (parent p) = Some (File c) \<Longrightarrow>
     mkdir fs p = Inl (NotADirectoryError p)"
  by (subst mkdir_unfold) (simp add: is_dir_def path_exists_def)

lemma mkdir_file: "lookup fs p = Some (File c) \<Longrightarrow> mkdir fs p = Inl (FileExistsError p)"
  by (subst mkdir_unfold) (simp add: is_dir_def path_exists_def)

lemma mkdir_parent_absent:
  "lookup fs p = None \<Longrightarrow> lookup fs (parent p) = None \<Longrightarrow>
     mkdir fs p =
       (case mkdir fs (parent p) of
          Inl e \<Rightarrow> Inl e
        | Inr fs' \<Rightarrow>
            (case os_mkdir fs' p of
               Inr fs'' \<Rightarrow> Inr fs''
             | Inl e \<Rightarrow> if is_dir fs' p then Inr fs' else Inl e))"
  by (subst mkdir_unfold) (simp add: is_dir_def path_exists_def)

lemma lookup_Cons: "parts p \<noteq> [] \<Longrightarrow> lookup ((p, n) # fs) q = (if q = p then Some n else lookup fs q)"
  by (auto simp: lookup_def)

lemma absent_has_parts: "lookup fs p = None \<Longrightarrow> parts p \<noteq> []"
  by (auto simp: lookup_def split: if_splits)

lemma os_mkdir_Inr: "os_mkdir fs p = Inr fs' \<Longrightarrow>
   lookup fs p = None \<and> lookup fs (parent p) = Some Dir \<and> fs' = (p, Dir) # fs"
  by (auto simp: os_mkdir_def path_exists_def split: if_splits option.splits node.splits)

lemma lineage_parts: "parts p \<noteq> [] \<Longrightarrow> lineage p = p # lineage (parent p)"
proof (cases p)
  case (Path a ps)
  assume "parts p \<noteq> []"
  then have ne: "ps \<noteq> []" using Path by simp
  then obtain x xs where r: "rev ps = x # xs" by (cases "rev ps") auto
  then have ps: "ps = rev xs @ [x]" by (metis rev.simps(2) rev_rev_ident)
  show ?thesis using Path r
    by (simp add: lineage_def parent_def ps)
qed

lemma lineage_no_parts: "parts p = [] \<Longrightarrow> lineage p = [p]"
  by (cases p) (simp add: lineage_def)

lemma self_in_lineage: "p \<in> set (lineage p)"
  by (cases "parts p = []") (simp_all add: lineage_parts lineage_no_parts)

lemma lineage_rev_length: "q \<in> set (lineage_rev a xs) \<Longrightarrow> length (parts q) \<le> length xs"
  by (induction xs) auto

lemma lineage_length: "q \<in> set (lineage p) \<Longrightarrow> length (parts q) \<le> length (parts p)"
  using lineage_rev_length [of q "anchor p" "rev (parts p)"] by (simp add: lineage_def)

lemma mkdir_adds_dirs:
  "mkdir fs p = Inr fs' \<Longrightarrow>
     lookup fs' q = lookup fs q
     \<or> (lookup fs q = None \<and> lookup fs' q = Some Dir \<and> q \<in> set (lineage p))"
proof (induction fs p arbitrary: fs' rule: mkdir.induct)
  case (1 fs p)
  show ?case
  proof (cases "lookup fs p")
    case (Some nd)
    then show ?thesis using "1.prems"
      by (cases nd) (auto simp: mkdir_dir mkdir_file is_dir_def)
  next
    case absent: None
    have pp: "parts p \<noteq> []" using absent by (rule absent_has_parts)
    show ?thesis
    proof (cases "lookup fs (parent p)")
      case None
      have np: "parent p \<noteq> p" using pp by (simp add: parent_fixed)
      have om: "os_mkdir fs p = Inl (FileNotFoundError p)"
        using None absent by (simp add: os_mkdir_def path_exists_def)
      from "1.prems" obtain fs1 where
        m1: "mkdir fs (parent p) = Inr fs1" and
        r: "(case os_mkdir fs1 p of Inr fs'' \<Rightarrow> Inr fs''
              | Inl e \<Rightarrow> if is_dir fs1 p then Inr fs1 else Inl e) = Inr fs'"
        by (simp add: mkdir_parent_absent [OF absent None] split: sum.splits)
      have ih: "lookup fs1 q = lookup fs q
         \<or> (lookup fs q = None \<and> lookup fs1 q = Some Dir \<and> q \<in> set (lineage (parent p)))"
        using "1.IH" [OF om refl np m1] .
      have shift: "set (lineage (parent p)) \<subseteq> set (lineage p)"
        using pp by (auto simp: lineage_parts)
      from r consider (same) "fs' = fs1" | (new) "fs' = (p, Dir) # fs1" "lookup fs1 p = None"
        by (auto split: sum.splits if_splits dest: os_mkdir_Inr)
      then show ?thesis
      proof cases
        case same
        then show ?thesis using ih shift by auto
      next
        case new
        show ?thesis
        proof (cases "q = p")
          case True
          then show ?thesis using new absent pp
            by (auto simp: lookup_Cons self_in_lineage)
        next
          case False
          then have "lookup fs' q = lookup fs1 q" using new pp by (simp add: lookup_Cons)
          then show ?thesis using ih shift by auto
        qed
      qed
    next
      case (Some nd)
      show ?thesis
      proof (cases nd)
        case Dir
        then have f: "fs' = (p, Dir) # fs"
          using "1.prems" mkdir_parent_dir [OF absent] Some by simp
        show ?thesis using f absent pp
          by (cases "q = p") (auto simp: lookup_Cons self_in_lineage)
      next
        case (File c)
        then show ?thesis using "1.prems" mkdir_parent_file [OF absent] Some by simp
      qed
    qed
  qed
qed













lemma participants_path:
  "truediv_str root ''participants.tsv'' = Path (anchor root) (parts root @ [''participants.tsv''])"
  by (simp add: truediv_str_def truediv_def PurePath_def splitroot_def)










lemma is_empty_eq: "Mapping.is_empty d \<Longrightarrow> d = Mapping.empty"
  by (rule mapping_eqI) (simp add: lookup_is_empty)

lemma dict_update_empty_left: "dict_update Mapping.empty m = m"
  by (rule mapping_eqI) (simp add: lookup_dict_update split: option.splits)

lemma dict_update_empty_right: "dict_update m Mapping.empty = m"
  by (rule mapping_eqI) (simp add: lookup_dict_update split: option.splits)

lemma write_file_Inr:
  "write_file p c fs = Inr fs' \<Longrightarrow> fs' = (p, File c) # fs \<and> parts p \<noteq> []"
  by (auto simp: write_file_def lookup_def split: option.splits node.splits if_splits)

lemma write_file_frame:
  "write_file p c fs = Inr fs' \<Longrightarrow> lookup fs' q = (if q = p then Some (File c) else lookup fs q)"
  using write_file_Inr [of p c fs fs'] by (auto simp: lookup_Cons)

lemma merge_json_object:
  assumes "merge_json p m fs = Inr fs'"
  shows "lookup fs' p = Some (File (JsonText (dict_update (json_object_at fs p) m)))
         \<and> (\<forall>q. q \<noteq> p \<longrightarrow> lookup fs' q = lookup fs q)"
proof (cases "path_exists fs p")
  case True
  then obtain d where d: "json_load p fs = Inr d"
      and w: "write_file p (JsonText (dict_update d m)) fs = Inr fs'"
    using assms by (auto simp: merge_json_def json_dump_def split: sum.splits)
  have "lookup fs p = Some (File (JsonText d))"
    using d by (auto simp: json_load_def read_file_def split: option.splits node.splits content.splits)
  then have "json_object_at fs p = d" by (simp add: json_object_at_def)
  then show ?thesis using write_file_frame [OF w] by simp
next
  case False
  then have w: "write_file p (JsonText m) fs = Inr fs'"
    using assms by (auto simp: merge_json_def json_dump_def)
  have "json_object_at fs p = Mapping.empty"
    using False by (simp add: json_object_at_def path_exists_def)
  then show ?thesis using write_file_frame [OF w] by (simp add: dict_update_empty_left)
qed

lemma with_suffix_shape:
  "with_suffix rp s = Inr mp \<Longrightarrow>
     parts rp \<noteq> [] \<and> anchor mp = anchor rp \<and> length (parts mp) = length (parts rp)"
  by (cases rp) (auto simp: with_suffix_def name_def split: if_splits list.splits)

lemma truediv_length:
  "anchor mp = anchor rp \<Longrightarrow> length (parts mp) = length (parts rp) \<Longrightarrow>
     length (parts (truediv root mp)) = length (parts (truediv root rp))"
  by (simp add: truediv_def)

lemma truediv_parts: "parts rp \<noteq> [] \<Longrightarrow> parts (truediv root rp) \<noteq> []"
  by (simp add: truediv_def)

lemma ensure_directory_path_frame:
  assumes "ensure_directory_path p False fs = Inr fs'" "parts p \<noteq> []"
    and "length (parts q) = length (parts p)"
  shows "lookup fs' q = lookup fs q"
proof (cases "path_exists fs (parent p)")
  case True
  then show ?thesis using assms(1) by (simp add: ensure_directory_path_def)
next
  case False
  then have m: "mkdir fs (parent p) = Inr fs'"
    using assms(1) by (simp add: ensure_directory_path_def)
  have "length (parts (parent p)) < length (parts q)"
    using assms(2,3) by (cases p) (simp add: parent_def)
  then have "q \<notin> set (lineage (parent p))"
    using lineage_length [of q "parent p"] by auto
  then show ?thesis using mkdir_adds_dirs [OF m, of q] by simp
qed

lemma copy2_frame:
  assumes "copy2 src dst fs = Inr fs'" "q \<noteq> dst" "length (parts q) = length (parts dst)"
  shows "lookup fs' q = lookup fs q"
proof -
  obtain dst' c where w: "write_file dst' c fs = Inr fs'"
      and d: "dst' = dst \<or> dst' = Path (anchor dst) (parts dst @ [name src])"
    using assms(1) by (auto simp: copy2_def Let_def split: if_splits sum.splits)
  have "q \<noteq> dst'" using d assms(2,3) by auto
  then show ?thesis using write_file_frame [OF w] by simp
qed

lemma merge_entity_overwrite:
  "entity_merge_strategy self = OVERWRITE \<Longrightarrow>
   relative_entity_metadata_path (config self) entity = Inr mp \<Longrightarrow>
   merge_entity self entity write_op fs =
     (case ensure_directory_path (truediv (bids_root self)
              (relative_entity_path (config self) entity)) False fs of
        Inl e \<Rightarrow> (Inl e, fs)
      | Inr fs1 \<Rightarrow>
          (case write_op (truediv (bids_root self)
                   (relative_entity_path (config self) entity)) fs1 of
             Inl e \<Rightarrow> (Inl e, fs1)
           | Inr fs2 \<Rightarrow>
               if truthy (metadata entity) then
                 (case merge_json (truediv (bids_root self) mp)
                         (the (metadata entity)) fs2 of
                    Inl e \<Rightarrow> (Inl e, fs2)
                  | Inr fs3 \<Rightarrow> (Inr (), fs3))
               else (Inr (), fs2)))"
  by (simp add: merge_entity_def Let_def split: sum.splits)

lemma overwrite_sidecar_step:
  assumes o: "entity_merge_strategy self = OVERWRITE"
    and mp: "relative_entity_metadata_path (config self) e = Inr mp"
    and ne: "truediv (bids_root self) mp \<noteq> truediv (bids_root self) (relative_entity_path (config self) e)"
    and w: "write_entity self e fs = (Inr (), fs')"
  shows "json_object_at fs' (truediv (bids_root self) mp)
           = dict_update (json_object_at fs (truediv (bids_root self) mp)) (metadata_dict e)
         \<and> (if truthy (metadata e)
            then lookup fs' (truediv (bids_root self) mp)
                   = Some (File (JsonText (json_object_at fs' (truediv (bids_root self) mp))))
            else lookup fs' (truediv (bids_root self) mp) = lookup fs (truediv (bids_root self) mp))"
proof -
  let ?S = "truediv (bids_root self) mp"
  let ?P = "truediv (bids_root self) (relative_entity_path (config self) e)"
  have shape: "parts (relative_entity_path (config self) e) \<noteq> []"
    "anchor mp = anchor (relative_entity_path (config self) e)"
    "length (parts mp) = length (parts (relative_entity_path (config self) e))"
    using with_suffix_shape [of "relative_entity_path (config self) e" "''.json''" mp] mp
    by (simp_all add: relative_entity_metadata_path_def)
  have len: "length (parts ?S) = length (parts ?P)"
    using shape(2,3) by (rule truediv_length)
  have pp: "parts ?P \<noteq> []" using shape(1) by (rule truediv_parts)
  define write_op where "write_op =
    (case file_path e of
       Some fp \<Rightarrow> (\<lambda>p. copy2 fp p)
     | None \<Rightarrow> (\<lambda>p. to_csv (the (tabular_data e)) p (CHR 0x09) False))"
  have op: "write_op = (\<lambda>p. copy2 (the (file_path e)) p)
          \<or> write_op = (\<lambda>p. to_csv (the (tabular_data e)) p (CHR 0x09) False)"
    by (cases "file_path e") (simp_all add: write_op_def)
  have me: "merge_entity self e write_op fs = (Inr (), fs')"
  proof (cases "file_path e")
    case (Some fp)
    then show ?thesis using w by (simp add: write_entity_def write_op_def)
  next
    case None
    then show ?thesis using w
      by (cases "tabular_data e") (simp_all add: write_entity_def write_op_def)
  qed
  have me': "(case ensure_directory_path ?P False fs of
              Inl e \<Rightarrow> (Inl e, fs)
            | Inr fs1 \<Rightarrow>
                (case write_op ?P fs1 of
                   Inl e \<Rightarrow> (Inl e, fs1)
                 | Inr fs2 \<Rightarrow>
                     if truthy (metadata e) then
                       (case merge_json ?S (the (metadata e)) fs2 of
                          Inl e \<Rightarrow> (Inl e, fs2)
                        | Inr fs3 \<Rightarrow> (Inr (), fs3))
                     else (Inr (), fs2))) = (Inr (), fs')"
    using me by (simp add: merge_entity_overwrite [OF o mp])
  obtain fsa where a: "ensure_directory_path ?P False fs = Inr fsa"
    using me' by (cases "ensure_directory_path ?P False fs") simp_all
  obtain fsb where b: "write_op ?P fsa = Inr fsb"
    using me' a by (cases "write_op ?P fsa") simp_all
  have c: "if truthy (metadata e)
        then merge_json ?S (the (metadata e)) fsb = Inr fs'
        else fs' = fsb"
  proof (cases "truthy (metadata e)")
    case True
    then show ?thesis using me' a b
      by (cases "merge_json ?S (the (metadata e)) fsb") simp_all
  next
    case False
    then show ?thesis using me' a b by simp
  qed
  have fa: "lookup fsa ?S = lookup fs ?S"
    using ensure_directory_path_frame [OF a pp len] .
  have fb: "lookup fsb ?S = lookup fsa ?S"
    using op
  proof
    assume "write_op = (\<lambda>p. copy2 (the (file_path e)) p)"
    then show ?thesis using b copy2_frame [of "the (file_path e)" ?P fsa fsb ?S] ne len by simp
  next
    assume "write_op = (\<lambda>p. to_csv (the (tabular_data e)) p (CHR 0x09) False)"
    then show ?thesis using b write_file_frame [of ?P _ fsa fsb ?S] ne
      by (simp add: to_csv_def)
  qed
  have same: "json_object_at fsb ?S = json_object_at fs ?S"
    using fa fb by (simp add: json_object_at_def)
  show ?thesis
  proof (cases "truthy (metadata e)")
    case True
    then obtain d where d: "metadata e = Some d" by (auto simp: truthy_def split: option.splits)
    have "merge_json ?S d fsb = Inr fs'" using c True d by simp
    from merge_json_object [OF this]
    show ?thesis using True d same by (simp add: json_object_at_def metadata_dict_def)
  next
    case False
    then have "metadata_dict e = Mapping.empty"
      by (auto simp: truthy_def metadata_dict_def is_empty_eq split: option.splits)
    then show ?thesis using False c fa fb same by (simp add: dict_update_empty_right)
  qed
qed

lemmas scenario_defs =
  write'_def drawing_writer_def drawing_entity_def confirm_root_def mkdir.simps os_mkdir_def
  path_exists_def lookup_def PurePath_def splitroot_def parent_def iterdir_def is_dir_def
  write_dataset_description_def truediv_str_def truediv_def merge_json_def json_dump_def
  json_load_def read_file_def write_file_def write_participants_def merge_tsv_def to_csv_def
  write_entity_def merge_entity_def ensure_directory_path_def relative_entity_path_def
  relative_entity_dir_def BidsConfig_default_def default_subject_formatter_def
  default_entity_formatter_def truthy_def relative_entity_metadata_path_def with_suffix_def
  name_def path_suffix_def

subsection \<open>The path configuration\<close>

text \<open>
  C9. Under the default configuration the directory, the destination path and the sidecar
  path of an entity do not depend on its session id: changing only \<open>session_id\<close> changes
  none of them, and the directory is the subject label followed by the datatype, with no
  session folder between them.
\<close>

theorem default_paths_ignore_session_id:
  "relative_entity_dir BidsConfig_default (entity\<lparr>session_id := s\<rparr>) =
     relative_entity_dir BidsConfig_default entity
   \<and> relative_entity_path BidsConfig_default (entity\<lparr>session_id := s\<rparr>) =
     relative_entity_path BidsConfig_default entity
   \<and> relative_entity_metadata_path BidsConfig_default (entity\<lparr>session_id := s\<rparr>) =
     relative_entity_metadata_path BidsConfig_default entity
   \<and> relative_entity_dir BidsConfig_default entity =
     truediv_str (PurePath (''sub-'' @ subject_id entity)) (datatype' entity)"
  by (simp add: relative_entity_metadata_path_def relative_entity_path_def
      relative_entity_dir_def BidsConfig_default_def default_subject_formatter_def
      default_entity_formatter_def)

subsection \<open>Entities and the builder\<close>

text \<open>
  C2, as the claim states it, fails: constructing an entity with neither a file reference
  nor tabular data succeeds, and neither \<open>is_file_resource\<close> nor \<open>is_tabular_data\<close> holds
  of the result.
\<close>

theorem entity_without_payload_is_constructed:
  "BidsEntity_init ''S01'' ''beh'' ''draw'' ''.tsv'' None None None None None = Inr bare_entity
   \<and> \<not> is_file_resource bare_entity \<and> \<not> is_tabular_data bare_entity"
  by (simp add: BidsEntity_init_def bare_entity_def is_file_resource_def is_tabular_data_def)

text \<open>
  C2, amended. Constructing an entity never fails, whichever payload fields are set;
  \<open>is_file_resource\<close> holds exactly when a file reference is set and \<open>is_tabular_data\<close>
  exactly when tabular data is set. Every entity that \<open>add\<close> appends has exactly one of
  the two.
\<close>

theorem entity_payload_predicates:
  "(\<exists>e. BidsEntity_init sid dt tn sfx ses md fp tb rid = Inr e
        \<and> is_file_resource e = (fp \<noteq> None) \<and> is_tabular_data e = (tb \<noteq> None))
   \<and> (add st b sid dt tn sfx res rid ses md = Inr st' \<longrightarrow>
        (\<exists>x. entity_lists st' (builder_entities b) = entity_lists st (builder_entities b) @ [x]
             \<and> is_file_resource x \<noteq> is_tabular_data x))"
  by (auto simp: BidsEntity_init_def is_file_resource_def is_tabular_data_def add_def
      append_entity_def split: resource.splits)

theorem entity_payload_predicates_witness:
  "(\<exists>e. BidsEntity_init ''S01'' ''beh'' ''draw'' ''.tsv'' None None None (Some drawing_table) None
          = Inr e
        \<and> is_file_resource e = ((None :: path option) \<noteq> None)
        \<and> is_tabular_data e = (Some drawing_table \<noteq> None))
   \<and> add initial_store (BidsBuilder_init None None) ''S01'' ''beh'' ''draw'' ''.tsv''
        (DataFrameResource drawing_table) None None None
      = Inr (append_entity initial_store 0 (drawing_entity drawing_table None))
   \<and> (\<exists>x. entity_lists (append_entity initial_store 0 (drawing_entity drawing_table None))
              (builder_entities (BidsBuilder_init None None))
            = entity_lists initial_store (builder_entities (BidsBuilder_init None None)) @ [x]
          \<and> is_file_resource x \<noteq> is_tabular_data x)"
proof -
  have a: "add initial_store (BidsBuilder_init None None) ''S01'' ''beh'' ''draw'' ''.tsv''
        (DataFrameResource drawing_table) None None None
      = Inr (append_entity initial_store 0 (drawing_entity drawing_table None))"
    by (simp add: add_def BidsBuilder_init_def BidsEntity_init_def drawing_entity_def
        default_entities_def)
  show ?thesis
    using a entity_payload_predicates [of "''S01''" "''beh''" "''draw''" "''.tsv''" None None
        None "Some drawing_table" None initial_store "BidsBuilder_init None None"
        "DataFrameResource drawing_table"
        "append_entity initial_store 0 (drawing_entity drawing_table None)"]
    by simp
qed

text \<open>
  C3 at the failing input. A first builder made without arguments receives one entity.
  A second builder made without arguments afterwards shares the first one's list: the
  model it builds before any \<open>add\<close> of its own already has that entity.
\<close>

theorem second_default_builder_is_not_empty:
  "add initial_store (BidsBuilder_init None None) ''S01'' ''beh'' ''draw'' ''.tsv''
       (DataFrameResource drawing_table) None None None
     = Inr (append_entity initial_store 0 (drawing_entity drawing_table None))
   \<and> entities (build (append_entity initial_store 0 (drawing_entity drawing_table None))
        (BidsBuilder_init None None)) = [drawing_entity drawing_table None]"
  by (simp add: add_def BidsBuilder_init_def BidsEntity_init_def drawing_entity_def
      default_entities_def append_entity_def build_def initial_store_def)

text \<open>
  What \<open>add\<close> does to the builder's list: with a path or a table as resource it appends
  one entity, built from its arguments, behind the entities already there, which stay as
  they are; so the model grows by one entity per call, in the order of the calls.
\<close>

theorem add_appends_one_entity:
  "add st b sid dt tn sfx res rid ses md = Inr st' \<Longrightarrow>
   \<exists>x. entities (build st' b) = entities (build st b) @ [x]
       \<and> subject_id x = sid \<and> datatype' x = dt \<and> task_name x = tn \<and> suffix x = sfx
       \<and> run_id x = rid \<and> session_id x = ses \<and> metadata x = md
       \<and> (case res of
             PathResource fp \<Rightarrow> file_path x = Some fp \<and> tabular_data x = None
           | DataFrameResource tb \<Rightarrow> file_path x = None \<and> tabular_data x = Some tb
           | OtherResource \<Rightarrow> False)"
  by (auto simp: add_def BidsEntity_init_def append_entity_def build_def split: resource.splits)

theorem add_appends_one_entity_witness:
  "add initial_store (BidsBuilder_init None None) ''S01'' ''beh'' ''draw'' ''.tsv''
       (DataFrameResource drawing_table) None None None
     = Inr (append_entity initial_store 0 (drawing_entity drawing_table None))
   \<and> (\<exists>x. entities (build (append_entity initial_store 0 (drawing_entity drawing_table None))
               (BidsBuilder_init None None))
             = entities (build initial_store (BidsBuilder_init None None)) @ [x]
           \<and> subject_id x = ''S01'' \<and> tabular_data x = Some drawing_table)"
proof -
  have a: "add initial_store (BidsBuilder_init None None) ''S01'' ''beh'' ''draw'' ''.tsv''
        (DataFrameResource drawing_table) None None None
      = Inr (append_entity initial_store 0 (drawing_entity drawing_table None))"
    by (simp add: add_def BidsBuilder_init_def BidsEntity_init_def drawing_entity_def
        default_entities_def)
  show ?thesis
    using a add_appends_one_entity [OF a] by auto
qed

subsection \<open>Per-entity conflict resolution\<close>

text \<open>
  C5. Under \<open>KEEP\<close> the conflict resolution of an entity returns at once and leaves the
  filesystem as it was, whatever the destination holds and whatever the payload and the
  metadata are; so does the loop over all entities of a model.
\<close>

theorem keep_writes_nothing:
  "merge_entity (self\<lparr>entity_merge_strategy := KEEP\<rparr>) entity write_op fs = (Inr (), fs)
   \<and> snd (write_entities (self\<lparr>entity_merge_strategy := KEEP\<rparr>) es fs) = fs"
proof
  show "merge_entity (self\<lparr>entity_merge_strategy := KEEP\<rparr>) entity write_op fs = (Inr (), fs)"
    by (simp add: merge_entity_def)
  show "snd (write_entities (self\<lparr>entity_merge_strategy := KEEP\<rparr>) es fs) = fs"
    by (induction es) (auto simp: write_entity_def merge_entity_def split: option.splits)
qed

text \<open>
  C7, as the claim states it, fails: the sidecar keeps what it held before the first
  write. Starting with a sidecar that holds the key \<open>old\<close>, two \<open>OVERWRITE\<close> writes of
  the scenario's entity, with metadata \<open>{a: 1}\<close> and then \<open>{b: 2}\<close>, both succeed and
  leave \<open>old\<close> in the sidecar, a key of neither dictionary.
\<close>

theorem sidecar_keeps_old_keys:
  "fst (write_entity (drawing_writer OVERWRITE [] Mapping.empty)
          (drawing_entity drawing_table (Some metadata_a)) stale_sidecar) = Inr ()
   \<and> fst (write_entity (drawing_writer OVERWRITE [] Mapping.empty)
          (drawing_entity drawing_table (Some metadata_b))
          (snd (write_entity (drawing_writer OVERWRITE [] Mapping.empty)
                  (drawing_entity drawing_table (Some metadata_a)) stale_sidecar))) = Inr ()
   \<and> Mapping.lookup
        (json_object_at
           (snd (write_entity (drawing_writer OVERWRITE [] Mapping.empty)
                   (drawing_entity drawing_table (Some metadata_b))
                   (snd (write_entity (drawing_writer OVERWRITE [] Mapping.empty)
                           (drawing_entity drawing_table (Some metadata_a)) stale_sidecar))))
           drawing_sidecar) ''old'' = Some ''0''
   \<and> Mapping.lookup (dict_update metadata_a metadata_b) ''old'' = None"
  by code_simp

text \<open>
  C7, amended. Let two entities with the same destination path, whose sidecar path
  differs from that destination, be written one after the other under \<open>OVERWRITE\<close>,
  both writes succeeding. Then the sidecar holds the object it held before the first
  write (none, if there was no sidecar) updated with the first metadata and then with the
  second: key by key the second metadata wins over the first, and the first over what
  was there. If no sidecar existed before, that is exactly the union of the two metadata
  dictionaries with the second winning. If one of them is non-empty, the sidecar is a
  JSON file afterwards.
\<close>

theorem overwrite_twice_merges_sidecar:
  assumes o: "entity_merge_strategy self = OVERWRITE"
    and same: "relative_entity_path (config self) e2 = relative_entity_path (config self) e1"
    and mp: "relative_entity_metadata_path (config self) e1 = Inr mp"
    and ne: "truediv (bids_root self) mp \<noteq> truediv (bids_root self) (relative_entity_path (config self) e1)"
    and w1: "write_entity self e1 fs0 = (Inr (), fs1)"
    and w2: "write_entity self e2 fs1 = (Inr (), fs2)"
  shows "json_object_at fs2 (truediv (bids_root self) mp)
           = dict_update (dict_update (json_object_at fs0 (truediv (bids_root self) mp))
               (metadata_dict e1)) (metadata_dict e2)
         \<and> (\<forall>k. Mapping.lookup (json_object_at fs2 (truediv (bids_root self) mp)) k =
               (case Mapping.lookup (metadata_dict e2) k of
                  Some v \<Rightarrow> Some v
                | None \<Rightarrow>
                    (case Mapping.lookup (metadata_dict e1) k of
                       Some v \<Rightarrow> Some v
                     | None \<Rightarrow> Mapping.lookup (json_object_at fs0 (truediv (bids_root self) mp)) k)))
         \<and> (lookup fs0 (truediv (bids_root self) mp) = None \<longrightarrow>
               json_object_at fs2 (truediv (bids_root self) mp)
                 = dict_update (metadata_dict e1) (metadata_dict e2))
         \<and> (truthy (metadata e1) \<or> truthy (metadata e2) \<longrightarrow>
               lookup fs2 (truediv (bids_root self) mp)
                 = Some (File (JsonText (json_object_at fs2 (truediv (bids_root self) mp)))))"
proof -
  let ?S = "truediv (bids_root self) mp"
  have mp2: "relative_entity_metadata_path (config self) e2 = Inr mp"
    using mp same by (simp add: relative_entity_metadata_path_def)
  have ne2: "?S \<noteq> truediv (bids_root self) (relative_entity_path (config self) e2)"
    using ne same by simp
  note s1 = overwrite_sidecar_step [OF o mp ne w1]
  note s2 = overwrite_sidecar_step [OF o mp2 ne2 w2]
  have eq: "json_object_at fs2 ?S
      = dict_update (dict_update (json_object_at fs0 ?S) (metadata_dict e1)) (metadata_dict e2)"
    using s1 s2 by simp
  have keys: "\<forall>k. Mapping.lookup (json_object_at fs2 ?S) k =
               (case Mapping.lookup (metadata_dict e2) k of
                  Some v \<Rightarrow> Some v
                | None \<Rightarrow>
                    (case Mapping.lookup (metadata_dict e1) k of
                       Some v \<Rightarrow> Some v
                     | None \<Rightarrow> Mapping.lookup (json_object_at fs0 ?S) k))"
    by (simp add: eq lookup_dict_update split: option.splits)
  have fresh: "lookup fs0 ?S = None \<longrightarrow>
      json_object_at fs2 ?S = dict_update (metadata_dict e1) (metadata_dict e2)"
  proof
    assume "lookup fs0 ?S = None"
    then have "json_object_at fs0 ?S = Mapping.empty" by (simp add: json_object_at_def)
    then show "json_object_at fs2 ?S = dict_update (metadata_dict e1) (metadata_dict e2)"
      using eq by (simp add: dict_update_empty_left)
  qed
  have written: "truthy (metadata e1) \<or> truthy (metadata e2) \<longrightarrow>
      lookup fs2 ?S = Some (File (JsonText (json_object_at fs2 ?S)))"
  proof (cases "truthy (metadata e2)")
    case True
    then show ?thesis using s2 by simp
  next
    case False
    then have l: "lookup fs2 ?S = lookup fs1 ?S" using s2 by simp
    then have "json_object_at fs2 ?S = json_object_at fs1 ?S" by (simp add: json_object_at_def)
    then show ?thesis using False l s1 by auto
  qed
  show ?thesis using eq keys fresh written by blast
qed

theorem overwrite_twice_merges_sidecar_witness:
  "entity_merge_strategy (drawing_writer OVERWRITE [] Mapping.empty) = OVERWRITE
   \<and> relative_entity_path (config (drawing_writer OVERWRITE [] Mapping.empty))
         (drawing_entity drawing_table (Some metadata_b))
       = relative_entity_path (config (drawing_writer OVERWRITE [] Mapping.empty))
           (drawing_entity drawing_table (Some metadata_a))
   \<and> relative_entity_metadata_path (config (drawing_writer OVERWRITE [] Mapping.empty))
         (drawing_entity drawing_table (Some metadata_a))
       = Inr (Path [] [''sub-S01'', ''beh'', ''sub-S01_task-draw_.json''])
   \<and> fst (write_entity (drawing_writer OVERWRITE [] Mapping.empty)
            (drawing_entity drawing_table (Some metadata_a)) []) = Inr ()
   \<and> fst (write_entity (drawing_writer OVERWRITE [] Mapping.empty)
            (drawing_entity drawing_table (Some metadata_b))
            (snd (write_entity (drawing_writer OVERWRITE [] Mapping.empty)
                    (drawing_entity drawing_table (Some metadata_a)) []))) = Inr ()
   \<and> lookup [] drawing_sidecar = None
   \<and> json_object_at
        (snd (write_entity (drawing_writer OVERWRITE [] Mapping.empty)
                (drawing_entity drawing_table (Some metadata_b))
                (snd (write_entity (drawing_writer OVERWRITE [] Mapping.empty)
                        (drawing_entity drawing_table (Some metadata_a)) []))))
        drawing_sidecar
       = dict_update metadata_a metadata_b
   \<and> lookup
        (snd (write_entity (drawing_writer OVERWRITE [] Mapping.empty)
                (drawing_entity drawing_table (Some metadata_b))
                (snd (write_entity (drawing_writer OVERWRITE [] Mapping.empty)
                        (drawing_entity drawing_table (Some metadata_a)) []))))
        drawing_sidecar
       = Some (File (JsonText (dict_update metadata_a metadata_b)))"
proof -
  let ?w = "drawing_writer OVERWRITE [] Mapping.empty"
  let ?e1 = "drawing_entity drawing_table (Some metadata_a)"
  let ?e2 = "drawing_entity drawing_table (Some metadata_b)"
  let ?mp = "Path [] [''sub-S01'', ''beh'', ''sub-S01_task-draw_.json'']"
  let ?fs1 = "snd (write_entity ?w ?e1 [])"
  let ?fs2 = "snd (write_entity ?w ?e2 ?fs1)"
  have o: "entity_merge_strategy ?w = OVERWRITE"
    by (simp add: drawing_writer_def)
  have same: "relative_entity_path (config ?w) ?e2 = relative_entity_path (config ?w) ?e1"
    by (simp add: relative_entity_path_def relative_entity_dir_def drawing_writer_def
        BidsConfig_default_def default_subject_formatter_def default_entity_formatter_def
        drawing_entity_def)
  have mp: "relative_entity_metadata_path (config ?w) ?e1 = Inr ?mp"
    by code_simp
  have s: "truediv (bids_root ?w) ?mp = drawing_sidecar"
    by code_simp
  have ne: "truediv (bids_root ?w) ?mp \<noteq> truediv (bids_root ?w) (relative_entity_path (config ?w) ?e1)"
    by code_simp
  have r1: "fst (write_entity ?w ?e1 []) = Inr ()"
    by code_simp
  have r2: "fst (write_entity ?w ?e2 ?fs1) = Inr ()"
    by code_simp
  have w1: "write_entity ?w ?e1 [] = (Inr (), ?fs1)"
    using r1 by (simp add: prod_eq_iff)
  have w2: "write_entity ?w ?e2 ?fs1 = (Inr (), ?fs2)"
    using r2 by (simp add: prod_eq_iff)
  have m: "metadata_dict ?e1 = metadata_a" "metadata_dict ?e2 = metadata_b"
    "truthy (metadata ?e1)"
    by (simp_all add: metadata_dict_def drawing_entity_def truthy_def metadata_a_def)
  have absent: "lookup [] drawing_sidecar = None"
    by (simp add: lookup_def drawing_sidecar_def)
  note t = overwrite_twice_merges_sidecar [OF o same mp ne w1 w2, unfolded s m(1,2)]
  have j: "json_object_at ?fs2 drawing_sidecar = dict_update metadata_a metadata_b"
    using t absent by blast
  have "lookup ?fs2 drawing_sidecar = Some (File (JsonText (json_object_at ?fs2 drawing_sidecar)))"
    using t m(3) by blast
  then have l: "lookup ?fs2 drawing_sidecar
      = Some (File (JsonText (dict_update metadata_a metadata_b)))"
    using j by simp
  show ?thesis
    by (intro conjI; fact o same mp r1 r2 absent j l)
qed

text \<open>
  C1 at the failing input. Under \<open>NO_MERGE\<close>, with nothing on disk, the conflict
  resolution of the scenario's entity raises the error of an unknown merge strategy and
  writes nothing, and so the write of the whole model fails with that error.
\<close>

theorem no_merge_fails_on_fresh_destination:
  "merge_entity (drawing_writer NO_MERGE [drawing_entity drawing_table None] Mapping.empty)
      (drawing_entity drawing_table None) (\<lambda>p. to_csv drawing_table p (CHR 0x09) False) []
    = (Inl (ValueError (Unknown_merge_strategy NO_MERGE)), [])
  \<and> fst (write' initial_store
        (drawing_writer NO_MERGE [drawing_entity drawing_table None] Mapping.empty) [])
    = Inl (ValueError (Unknown_merge_strategy NO_MERGE))"
  by code_simp




text \<open>
  The conflict of \<open>NO_MERGE\<close>: when the destination exists, the conflict resolution of
  the entity raises the error that the file already exists (the spec's EntityConflict)
  and writes nothing.
\<close>

theorem no_merge_conflict:
  "entity_merge_strategy self = NO_MERGE \<Longrightarrow>
   path_exists fs (truediv (bids_root self) (relative_entity_path (config self) entity)) \<Longrightarrow>
   merge_entity self entity write_op fs =
     (Inl (ValueError (File_already_exists
        (truediv (bids_root self) (relative_entity_path (config self) entity)))), fs)"
  by (simp add: merge_entity_def)

theorem no_merge_conflict_witness:
  "entity_merge_strategy (drawing_writer NO_MERGE [] Mapping.empty) = NO_MERGE
   \<and> path_exists
        [(Path [] [''root'', ''sub-S01'', ''beh'', ''sub-S01_task-draw_.tsv''], File (Bytes []))]
        (truediv (bids_root (drawing_writer NO_MERGE [] Mapping.empty))
           (relative_entity_path (config (drawing_writer NO_MERGE [] Mapping.empty))
              (drawing_entity drawing_table None)))
   \<and> merge_entity (drawing_writer NO_MERGE [] Mapping.empty) (drawing_entity drawing_table None)
        (\<lambda>p. to_csv drawing_table p (CHR 0x09) False)
        [(Path [] [''root'', ''sub-S01'', ''beh'', ''sub-S01_task-draw_.tsv''], File (Bytes []))]
      = (Inl (ValueError (File_already_exists
           (truediv (bids_root (drawing_writer NO_MERGE [] Mapping.empty))
              (relative_entity_path (config (drawing_writer NO_MERGE [] Mapping.empty))
                 (drawing_entity drawing_table None))))),
         [(Path [] [''root'', ''sub-S01'', ''beh'', ''sub-S01_task-draw_.tsv''], File (Bytes []))])"
proof -
  let ?w = "drawing_writer NO_MERGE [] Mapping.empty"
  let ?fs = "[(Path [] [''root'', ''sub-S01'', ''beh'', ''sub-S01_task-draw_.tsv''],
               File (Bytes []))]"
  have s: "entity_merge_strategy ?w = NO_MERGE"
    by (simp add: drawing_writer_def)
  have e: "path_exists ?fs
      (truediv (bids_root ?w)
         (relative_entity_path (config ?w) (drawing_entity drawing_table None)))"
    by code_simp
  show ?thesis
    using no_merge_conflict [OF s e] s e by blast
qed

subsection \<open>The whole-model write\<close>



text \<open>
  C4, as the claim states it, fails: after the write of the scenario's model (a two-row
  table) to the empty filesystem, which returns \<open>True\<close>, there is no file
  \<open>root/sub-S01/beh/sub-S01_task-draw.tsv\<close>.
\<close>

theorem scenario_file_name_counterexample:
  "fst (write' initial_store
          (drawing_writer OVERWRITE [drawing_entity drawing_table None] Mapping.empty) [])
     = Inr True
   \<and> lookup (snd (write' initial_store
          (drawing_writer OVERWRITE [drawing_entity drawing_table None] Mapping.empty) []))
        (Path [] [''root'', ''sub-S01'', ''beh'', ''sub-S01_task-draw.tsv'']) = None"
  by code_simp

text \<open>
  C4, amended. The write of a model with the one tabular entity of the scenario, under
  \<open>OVERWRITE\<close> and the default configuration, to a root that is absent or an empty
  directory, returns \<open>True\<close> and leaves the file
  \<open>root/sub-S01/beh/sub-S01_task-draw_.tsv\<close> (the suffix is joined with an underscore,
  like every other part of the name) holding the table as tab-separated text with its
  header and without index column, and both \<open>root/dataset_description.json\<close> and
  \<open>root/participants.tsv\<close>.
\<close>

theorem scenario_files:
  assumes "fs = [] \<or> fs = [(Path [] [''root''], Dir)]"
  shows "\<exists>fs'. write' st (drawing_writer OVERWRITE [drawing_entity tb md] dd) fs = (Inr True, fs')
     \<and> lookup fs' (Path [] [''root'', ''sub-S01'', ''beh'', ''sub-S01_task-draw_.tsv''])
        = Some (File (CsvText (CHR 0x09) False tb))
     \<and> path_exists fs' (Path [] [''root'', ''dataset_description.json''])
     \<and> path_exists fs' (Path [] [''root'', ''participants.tsv''])"
proof (cases md)
  case None
  then show ?thesis using assms
    by (auto simp add: scenario_defs)
next
  case (Some d)
  then show ?thesis using assms
    by (cases "Mapping.is_empty d") (auto simp add: scenario_defs)
qed

theorem scenario_files_witness:
  "(([] :: filesystem) = [] \<or> [] = [(Path [] [''root''], Dir)])
   \<and> (\<exists>fs'. write' initial_store
               (drawing_writer OVERWRITE [drawing_entity drawing_table None] Mapping.empty) []
             = (Inr True, fs')
     \<and> lookup fs' (Path [] [''root'', ''sub-S01'', ''beh'', ''sub-S01_task-draw_.tsv''])
        = Some (File (CsvText (CHR 0x09) False drawing_table))
     \<and> path_exists fs' (Path [] [''root'', ''dataset_description.json''])
     \<and> path_exists fs' (Path [] [''root'', ''participants.tsv'']))"
  using scenario_files [of "[]" initial_store drawing_table None Mapping.empty]
  by simp

subsection \<open>The context manager\<close>

text \<open>
  C10. \<open>__exit__\<close> is \<open>write\<close>, whatever its three arguments are. A \<open>write\<close> that returns
  returns \<open>True\<close>; then a \<open>with\<close> block that ended with an exception completes normally,
  with the filesystem the write left: the exception is suppressed.
\<close>

theorem exit_is_write:
  "exit' st self exc_type exc_value traceback fs = write' st self fs
   \<and> (\<forall>b fs'. write' st self fs = (Inr b, fs') \<longrightarrow>
         b = True \<and> with_exit st self (Some exc) fs = (Inr (), fs'))"
  by (auto simp: exit'_def with_exit_def write'_def
      split: if_splits option.splits prod.splits sum.splits)

theorem exit_is_write_witness:
  "exit' initial_store
      (drawing_writer OVERWRITE [drawing_entity drawing_table None] Mapping.empty)
      (Some (ValueError Unknown_entity_type)) (Some (ValueError Unknown_entity_type)) (Some ())
      []
    = write' initial_store
        (drawing_writer OVERWRITE [drawing_entity drawing_table None] Mapping.empty) []
   \<and> write' initial_store
        (drawing_writer OVERWRITE [drawing_entity drawing_table None] Mapping.empty) []
      = (Inr True,
         snd (write' initial_store
                (drawing_writer OVERWRITE [drawing_entity drawing_table None] Mapping.empty)
                []))
   \<and> with_exit initial_store
        (drawing_writer OVERWRITE [drawing_entity drawing_table None] Mapping.empty)
        (Some (ValueError Unknown_entity_type)) []
      = (Inr (),
         snd (write' initial_store
                (drawing_writer OVERWRITE [drawing_entity drawing_table None] Mapping.empty)
                []))"
proof -
  let ?w = "drawing_writer OVERWRITE [drawing_entity drawing_table None] Mapping.empty"
  have r: "fst (write' initial_store ?w []) = Inr True"
    by code_simp
  have w: "write' initial_store ?w [] = (Inr True, snd (write' initial_store ?w []))"
    using r by (simp add: prod_eq_iff)
  show ?thesis
    using exit_is_write [of initial_store ?w "Some (ValueError Unknown_entity_type)"
        "Some (ValueError Unknown_entity_type)" "Some ()" "[]" "ValueError Unknown_entity_type"] w
    by blast
qed

end
